theory Spec2Isabelle
  imports Main "HOL-Library.Word"
begin

section \<open>Background remover: a shallow embedding of \<open>code_1.py\<close>\<close>

text \<open>
  The program is a Streamlit script. Every user interaction re-runs it from top to
  bottom; what survives between two runs is the \<open>st.cache_data\<close> store of the one
  decorated function. A run is modelled as a function from the collaborators (the
  \<open>rembg\<close> import, Pillow's decoder and encoder), the widget values (the uploaded file,
  the chosen download format) and the store, to the elements it draws, the exception that
  ended it (if one did) and the new store.
\<close>

subsection \<open>Python values\<close>

type_synonym byte = "8 word"

text \<open>An instance of a subclass of \<open>Exception\<close>: its class name and \<open>str(e)\<close>.\<close>

datatype py_exception = PyExc (exc_class: string) (exc_str: string)

text \<open>
  \<open>str.lower\<close> on ASCII text: the 26 capital letters map to their small letters, every
  other character stays.
\<close>

definition lower_char :: "char \<Rightarrow> char" where
  "lower_char c =
     (case map_of (zip ''ABCDEFGHIJKLMNOPQRSTUVWXYZ'' ''abcdefghijklmnopqrstuvwxyz'') c of
        Some d \<Rightarrow> d
      | None \<Rightarrow> c)"

definition lower :: "string \<Rightarrow> string" where
  "lower s = map lower_char s"

subsection \<open>\<open>os.path.splitext\<close>\<close>

text \<open>
  \<open>str.rfind\<close> for a one-character needle: the highest index holding it, or \<open>-1\<close>.
\<close>

fun rfind_from :: "string \<Rightarrow> char \<Rightarrow> nat \<Rightarrow> int \<Rightarrow> int" where
  "rfind_from [] c i found = found"
| "rfind_from (x # xs) c i found = rfind_from xs c (Suc i) (if x = c then int i else found)"

definition rfind :: "string \<Rightarrow> char \<Rightarrow> int" where
  "rfind p c = rfind_from p c 0 (- 1)"

text \<open>
  \<open>genericpath._splitext(p, sep, altsep, extsep)\<close>:
  \<^verbatim>\<open>
    sepIndex = p.rfind(sep)
    if altsep:
        altsepIndex = p.rfind(altsep)
        sepIndex = max(sepIndex, altsepIndex)
    dotIndex = p.rfind(extsep)
    if dotIndex > sepIndex:
        # skip all leading dots
        filenameIndex = sepIndex + 1
        while filenameIndex < dotIndex:
            if p[filenameIndex:filenameIndex+1] != extsep:
                return p[:dotIndex], p[dotIndex:]
            filenameIndex += 1
    return p, p[:0]
  \<close>
  The loop is \<open>leading_dots_end\<close>: it answers whether some character from
  \<open>filenameIndex\<close> up to \<open>dotIndex\<close> is not the extension separator.
\<close>

function leading_dots_end :: "string \<Rightarrow> char \<Rightarrow> nat \<Rightarrow> nat \<Rightarrow> bool" where
  "leading_dots_end p extsep filenameIndex dotIndex =
     (if filenameIndex < dotIndex
      then (if take 1 (drop filenameIndex p) \<noteq> [extsep] then True
            else leading_dots_end p extsep (Suc filenameIndex) dotIndex)
      else False)"
  by pat_completeness auto
termination
  by (relation "measure (\<lambda>(p, extsep, filenameIndex, dotIndex). dotIndex - filenameIndex)") auto

declare leading_dots_end.simps [simp del]

definition splitext_generic :: "string \<Rightarrow> char \<Rightarrow> char option \<Rightarrow> char \<Rightarrow> string \<times> string" where
  "splitext_generic p sep altsep extsep =
     (let sepIndex0 = rfind p sep;
          sepIndex = (case altsep of None \<Rightarrow> sepIndex0
                      | Some a \<Rightarrow> max sepIndex0 (rfind p a));
          dotIndex = rfind p extsep
      in if dotIndex > sepIndex \<and> leading_dots_end p extsep (nat (sepIndex + 1)) (nat dotIndex)
         then (take (nat dotIndex) p, drop (nat dotIndex) p)
         else (p, []))"

text \<open>\<open>posixpath.splitext\<close>: separator \<open>/\<close>, no alternative separator, extension dot.\<close>

definition splitext :: "string \<Rightarrow> string \<times> string" where
  "splitext p = splitext_generic p (CHR ''/'') None (CHR ''.'')"

subsection \<open>The download's name and MIME type (lines 79 to 88 and 108)\<close>

text \<open>The options of the \<open>format_select\<close> select box.\<close>

definition format_options :: "string list" where
  "format_options = [''PNG'', ''JPG'']"

text \<open>
  \<^verbatim>\<open>output_filename = f"bg_removed_{os.path.splitext(uploaded_file.name)[0]}.{download_format.lower()}"\<close>
\<close>

definition output_filename :: "string \<Rightarrow> string \<Rightarrow> string" where
  "output_filename uploaded_name download_format =
     ''bg_removed_'' @ fst (splitext uploaded_name) @ ''.'' @ lower download_format"

text \<open>\<^verbatim>\<open>save_format = 'JPEG' if download_format == 'JPG' else 'PNG'\<close>\<close>

definition save_format :: "string \<Rightarrow> string" where
  "save_format download_format = (if download_format = ''JPG'' then ''JPEG'' else ''PNG'')"

text \<open>\<^verbatim>\<open>mime=f"image/{download_format.lower()}"\<close>\<close>

definition mime_type :: "string \<Rightarrow> string" where
  "mime_type download_format = ''image/'' @ lower download_format"

subsection \<open>Pillow images\<close>

text \<open>
  The 8-bit greyscale and true-colour modes, with and without an alpha band. One entry of
  \<open>data\<close> is one pixel, row by row, with one byte per band. Palette, bilevel, integer
  and CMYK images are outside this model.
\<close>

datatype mode = Mode_L | Mode_LA | Mode_RGB | Mode_RGBA

fun getbands :: "mode \<Rightarrow> string" where
  "getbands Mode_L = ''L''"
| "getbands Mode_LA = ''LA''"
| "getbands Mode_RGB = ''RGB''"
| "getbands Mode_RGBA = ''RGBA''"

record image =
  mode :: mode
  size_px :: "nat \<times> nat"
  data :: "byte list list"

definition has_alpha :: "image \<Rightarrow> bool" where
  "has_alpha im = (CHR ''A'' \<in> set (getbands (mode im)))"

definition wf_image :: "image \<Rightarrow> bool" where
  "wf_image im =
     (length (data im) = fst (size_px im) * snd (size_px im) \<and>
      list_all (\<lambda>px. length px = length (getbands (mode im))) (data im))"

text \<open>\<open>Image.new(mode, size, color)\<close>\<close>

definition Image_new :: "mode \<Rightarrow> nat \<times> nat \<Rightarrow> byte list \<Rightarrow> image" where
  "Image_new m sz color = \<lparr>mode = m, size_px = sz, data = replicate (fst sz * snd sz) color\<rparr>"

text \<open>\<open>Image.split()\<close>: one \<open>L\<close> image per band.\<close>

definition split :: "image \<Rightarrow> image list" where
  "split im =
     map (\<lambda>k. \<lparr>mode = Mode_L, size_px = size_px im, data = map (\<lambda>px. [px ! k]) (data im)\<rparr>)
       [0 ..< length (getbands (mode im))]"

text \<open>
  \<open>Image.paste(im, mask=mask)\<close> with no box, images of one size and an \<open>L\<close> mask, into
  an image without alpha. Pillow blends every band of every pixel with
  \<^verbatim>\<open>
    #define SHIFTFORDIV255(a) ((((a) >> 8) + a) >> 8)
    #define DIV255(a, tmp) (tmp = (a) + 128, SHIFTFORDIV255(tmp))
    #define BLEND8(mask, in1, in2, tmp1) DIV255(in1 * (255 - mask) + in2 * mask, tmp1)
    out[i] = BLEND8(mask[0], out[i], in[i], tmp1);
  \<close>
  An \<open>RGBA\<close> source pasted into an \<open>RGB\<close> image gives its first three bands.
\<close>

definition DIV255 :: "nat \<Rightarrow> nat" where
  "DIV255 a = (let tmp = a + 128 in (tmp div 256 + tmp) div 256)"

definition BLEND8 :: "byte \<Rightarrow> byte \<Rightarrow> byte \<Rightarrow> byte" where
  "BLEND8 msk in1 in2 = of_nat (DIV255 (unat in1 * (255 - unat msk) + unat in2 * unat msk))"

definition paste :: "image \<Rightarrow> image \<Rightarrow> image \<Rightarrow> image" where
  "paste self im msk =
     self\<lparr>data :=
       map (\<lambda>(out, inp, m).
              map (\<lambda>(out_band, in_band). BLEND8 (hd m) out_band in_band) (zip out inp))
         (zip (data self) (zip (data im) (data msk)))\<rparr>"

text \<open>
  \<open>Image.convert('RGB')\<close>: a grey value is copied to the three bands, an alpha band is
  dropped.
\<close>

fun convert_pixel_RGB :: "mode \<Rightarrow> byte list \<Rightarrow> byte list" where
  "convert_pixel_RGB Mode_L px = [hd px, hd px, hd px]"
| "convert_pixel_RGB Mode_LA px = [hd px, hd px, hd px]"
| "convert_pixel_RGB Mode_RGB px = px"
| "convert_pixel_RGB Mode_RGBA px = take 3 px"

definition convert_RGB :: "image \<Rightarrow> image" where
  "convert_RGB im =
     \<lparr>mode = Mode_RGB, size_px = size_px im, data = map (convert_pixel_RGB (mode im)) (data im)\<rparr>"

subsection \<open>Collaborators\<close>

text \<open>
  What the script imports and does not define: whether \<open>from rembg import remove\<close>
  succeeded, that function, \<open>Image.open\<close> on the uploaded bytes and \<open>Image.save\<close> into
  a buffer with a format and an optional quality. Each either returns or raises.
\<close>

record env =
  REMBG_AVAILABLE :: bool
  rembg_remove :: "image \<Rightarrow> py_exception + image"
  Image_open :: "byte list \<Rightarrow> py_exception + image"
  Image_save :: "image \<Rightarrow> string \<Rightarrow> nat option \<Rightarrow> py_exception + byte list"

record uploaded_file =
  name :: string
  content :: "byte list"

subsection \<open>What a run draws\<close>

datatype element =
    St_title string
  | St_write string
  | St_file_uploader string "string list"
  | St_image image string
  | St_selectbox string "string list"
  | St_download_button (label: string) (button_data: "byte list") (file_name: string) (mime: string)
  | St_error string
  | St_info string
  | St_header string
  | St_markdown string
  | St_code string
  | St_warning string

datatype container = Page | Col1 | Col2 | Sidebar

type_synonym drawn = "container \<times> element"

subsection \<open>The removal function and its fallback (lines 5 to 15)\<close>

text \<open>
  \<open>remove\<close> is \<open>rembg.remove\<close> when the import succeeded, and otherwise the dummy that
  reports the missing library and returns its argument. The third component is the log of
  the arguments \<open>remove\<close> has been called with, in order.
\<close>

definition remove :: "env \<Rightarrow> image \<Rightarrow> image list \<Rightarrow> (py_exception + image) \<times> drawn list \<times> image list" where
  "remove e img_bytes calls =
     (if REMBG_AVAILABLE e then (rembg_remove e img_bytes, [], calls @ [img_bytes])
      else (Inr img_bytes,
            [(Page, St_error ''`rembg` library not found. Background removal placeholder active.'')],
            calls @ [img_bytes]))"

subsection \<open>The helper (lines 30 to 40) and its cache (line 29)\<close>

text \<open>
  The body of \<open>remove_background_from_bytes\<close>, which Python keeps as its
  \<open>__wrapped__\<close>: one call of \<open>remove\<close>; an exception becomes \<open>None\<close> and an
  \<open>st.error\<close> with its text.
\<close>

definition remove_background_from_bytes_wrapped ::
    "env \<Rightarrow> image \<Rightarrow> image list \<Rightarrow> (image option \<times> drawn list) \<times> image list" where
  "remove_background_from_bytes_wrapped e image_bytes calls =
     (case remove e image_bytes calls of
        (Inr output_bytes, msgs, calls') \<Rightarrow> ((Some output_bytes, msgs), calls')
      | (Inl exc, msgs, calls') \<Rightarrow>
          ((None, msgs @ [(Page, St_error (''Error during background removal: '' @ exc_str exc))]),
           calls'))"

text \<open>
  \<open>st.cache_data\<close> keeps, per function, the returned value and the elements drawn
  during the call under a key made of the call's arguments, and on a later call with the
  same key returns the value and draws the elements again without running the body. The
  key leaves out every argument whose parameter name starts with an underscore
  (Streamlit's \<open>_make_value_key\<close>):
  \<^verbatim>\<open>
    for arg_name, arg_value in arg_pairs:
        if arg_name is not None and arg_name.startswith("_"):
            continue
        update_hash(arg_name, ...); update_hash(arg_value, ...)
  \<close>
  No \<open>ttl\<close> and no \<open>max_entries\<close> are given, so an entry lives as long as the process.
\<close>

definition startswith :: "string \<Rightarrow> string \<Rightarrow> bool" where
  "startswith s prefix = (take (length prefix) s = prefix)"

definition make_value_key :: "string list \<Rightarrow> 'a list \<Rightarrow> (string \<times> 'a) list" where
  "make_value_key arg_names func_args =
     filter (\<lambda>(arg_name, arg_value). \<not> startswith arg_name ''_'') (zip arg_names func_args)"

type_synonym cached_result = "image option \<times> drawn list"

record runtime =
  cache :: "((string \<times> image) list \<times> cached_result) list"
  remove_calls :: "image list"

definition fresh_runtime :: runtime where
  "fresh_runtime = \<lparr>cache = [], remove_calls = []\<rparr>"

text \<open>The decorated function, whose one parameter is named \<open>_image_bytes\<close>.\<close>

definition remove_background_from_bytes :: "env \<Rightarrow> image \<Rightarrow> runtime \<Rightarrow> cached_result \<times> runtime" where
  "remove_background_from_bytes e image_bytes rt =
     (let value_key = make_value_key [''_image_bytes''] [image_bytes] in
      case map_of (cache rt) value_key of
        Some cached \<Rightarrow> (cached, rt)
      | None \<Rightarrow>
          (case remove_background_from_bytes_wrapped e image_bytes (remove_calls rt) of
             (computed, calls') \<Rightarrow>
               (computed, \<lparr>cache = (value_key, computed) # cache rt, remove_calls = calls'\<rparr>)))"

subsection \<open>Preparing the download (lines 85 to 112)\<close>

text \<open>
  The image handed to the JPEG encoder (lines 93 to 100): an \<open>RGBA\<close> image is pasted on
  a white \<open>RGB\<close> image with its fourth band as the mask, any other image is converted
  to \<open>RGB\<close>.
\<close>

definition jpeg_image :: "image \<Rightarrow> image" where
  "jpeg_image output_image =
     (if mode output_image = Mode_RGBA
      then paste (Image_new Mode_RGB (size_px output_image) [255, 255, 255]) output_image
             (split output_image ! 3)
      else convert_RGB output_image)"

definition save_download :: "env \<Rightarrow> image \<Rightarrow> string \<Rightarrow> py_exception + byte list" where
  "save_download e output_image save_fmt =
     (if save_fmt = ''JPEG'' then Image_save e (jpeg_image output_image) save_fmt (Some 95)
      else Image_save e output_image save_fmt None)"

definition download_section :: "env \<Rightarrow> string \<Rightarrow> image \<Rightarrow> string \<Rightarrow> drawn list" where
  "download_section e uploaded_name output_image download_format =
     (case save_download e output_image (save_format download_format) of
        Inr buf_out \<Rightarrow>
          [(Col2, St_download_button (''Download as '' @ download_format) buf_out
                    (output_filename uploaded_name download_format) (mime_type download_format))]
      | Inl exc \<Rightarrow> [(Col2, St_error (''Error preparing download: '' @ exc_str exc))])"

subsection \<open>The script\<close>

text \<open>The two emoji of the page, as their UTF-8 bytes.\<close>

definition scissors :: string where
  "scissors = [CHR 0xE2, CHR 0x9C, CHR 0x82, CHR 0xEF, CHR 0xB8, CHR 0x8F]"

definition index_pointing_up :: string where
  "index_pointing_up = [CHR 0xE2, CHR 0x98, CHR 0x9D, CHR 0xEF, CHR 0xB8, CHR 0x8F]"

definition page_head :: "drawn list" where
  "page_head =
     [(Page, St_title (scissors @ '' Simple Background Remover'')),
      (Page, St_write ''Upload an image (JPG, JPEG, or PNG) to remove its background.''),
      (Page, St_write ''---''),
      (Page, St_file_uploader ''Choose an image...'' [''jpg'', ''jpeg'', ''png''])]"

definition original_panel :: "image \<Rightarrow> drawn list" where
  "original_panel input_image =
     [(Col1, St_write ''### Original Image''),
      (Col1, St_image input_image ''Your Upload'')]"

definition processed_panel :: "image \<Rightarrow> drawn list" where
  "processed_panel output_image =
     [(Col2, St_write ''### Background Removed''),
      (Col2, St_image output_image ''Processed Image''),
      (Col2, St_write ''---''),
      (Col2, St_write ''#### Download Result''),
      (Col2, St_selectbox ''Select download format'' format_options)]"

text \<open>The warning of lines 135 and 136.\<close>

definition missing_rembg_warning :: drawn where
  "missing_rembg_warning =
     (Sidebar, St_warning
        ''`rembg` not found. Install it or replace the background removal function in the code.'')"

definition sidebar :: "env \<Rightarrow> drawn list" where
  "sidebar e =
     [(Sidebar, St_header ''Info''),
      (Sidebar, St_markdown
         ''\<newline>This app uses Python and Streamlit to remove backgrounds from images.\<newline>''),
      (Sidebar, St_header ''Libraries Used''),
      (Sidebar, St_markdown
         (''\<newline>- **streamlit**: Web App Framework\<newline>'' @
          ''- **Pillow**: Image Processing\<newline>'' @
          ''- **rembg**: Background Removal Engine '' @
          (if REMBG_AVAILABLE e then ''**(Using Example)**''
           else ''**(`rembg` not found - install or replace logic)**'') @
          ''\<newline>- **io, os**: Standard Libraries\<newline>'')),
      (Sidebar, St_header ''Installation''),
      (Sidebar, St_code ''pip install streamlit pillow rembg'')] @
     (if \<not> REMBG_AVAILABLE e then [missing_rembg_warning] else [])"

text \<open>
  One run of the script (lines 43 to 136) with the uploader's file, the select box's
  value and the runtime's store: what it drew, the exception that ended it if no handler
  caught it, and the store afterwards. \<open>Image.open\<close> at line 55 stands outside every
  \<open>try\<close>, so its exception ends the run there. \<open>st.image\<close> is taken to draw the
  image it is given: what it does with a value that is not a well-formed image is not
  modelled.
\<close>

definition app ::
    "env \<Rightarrow> uploaded_file option \<Rightarrow> string \<Rightarrow> runtime \<Rightarrow> (drawn list \<times> py_exception option) \<times> runtime" where
  "app e uploaded download_format rt =
     (case uploaded of
        None \<Rightarrow>
          ((page_head @
            [(Page, St_info (index_pointing_up @ '' Upload an image file to get started.''))] @
            sidebar e, None), rt)
      | Some f \<Rightarrow>
          (case Image_open e (content f) of
             Inl exc \<Rightarrow> ((page_head, Some exc), rt)
           | Inr input_image \<Rightarrow>
               (case remove_background_from_bytes e input_image rt of
                  ((output_image, msgs), rt') \<Rightarrow>
                    ((page_head @ original_panel input_image @ msgs @
                      (case output_image of
                         Some out \<Rightarrow> processed_panel out @ download_section e (name f) out download_format
                       | None \<Rightarrow>
                           [(Col2, St_error
                               ''Could not process the image. Please try another one or check the logs.'')]) @
                      sidebar e, None), rt'))))"

subsection \<open>Flattening, in the spec's words\<close>

text \<open>
  The spec's value of one band of a flattened pixel is \<open>round(fg*a + 255*(1-a))\<close> with
  the alpha \<open>a\<close> between 0 and 1. With the alpha byte \<open>alpha = 255 * a\<close> this is the integer
  nearest to \<open>(fg * alpha + 255 * (255 - alpha)) / 255\<close>.
\<close>

definition spec_flatten_band :: "nat \<Rightarrow> nat \<Rightarrow> nat" where
  "spec_flatten_band fg alpha = (2 * (fg * alpha + 255 * (255 - alpha)) + 255) div 510"

subsection \<open>Stores that runs of the script can build\<close>

text \<open>
  Inside the cached function only \<open>st.error\<close> draws, so every entry of a store built by
  runs of the script holds error elements only. \<open>fallback_store\<close> is the store of a
  process whose \<open>rembg\<close> import failed: every entry holds an image and the placeholder's
  message.
\<close>

definition is_error :: "drawn \<Rightarrow> bool" where
  "is_error d = (case snd d of St_error msg \<Rightarrow> True | _ \<Rightarrow> False)"

definition is_download_button :: "drawn \<Rightarrow> bool" where
  "is_download_button d = (case snd d of St_download_button l b n m \<Rightarrow> True | _ \<Rightarrow> False)"

definition cache_ok :: "runtime \<Rightarrow> bool" where
  "cache_ok rt = list_all (\<lambda>(k, v, msgs). list_all is_error msgs) (cache rt)"

definition placeholder_error :: drawn where
  "placeholder_error =
     (Page, St_error ''`rembg` library not found. Background removal placeholder active.'')"

definition fallback_store :: "runtime \<Rightarrow> bool" where
  "fallback_store rt =
     list_all (\<lambda>(k, v, msgs). v \<noteq> None \<and> msgs = [placeholder_error]) (cache rt)"

subsection \<open>Example collaborators and inputs\<close>

definition pixel_image :: "mode \<Rightarrow> byte list \<Rightarrow> image" where
  "pixel_image m px = \<lparr>mode = m, size_px = (1, 1), data = [px]\<rparr>"

definition black_rgb :: image where
  "black_rgb = pixel_image Mode_RGB [0, 0, 0]"

definition white_rgb :: image where
  "white_rgb = pixel_image Mode_RGB [255, 255, 255]"

text \<open>One black, fully transparent pixel of a greyscale image with alpha.\<close>

definition clear_la :: image where
  "clear_la = pixel_image Mode_LA [0, 0]"

definition half_rgba :: image where
  "half_rgba = pixel_image Mode_RGBA [10, 20, 30, 128]"

text \<open>The bytes of the text \<open>hello\<close>, uploaded under the name \<open>notes.png\<close>.\<close>

definition text_upload :: uploaded_file where
  "text_upload = \<lparr>name = ''notes.png'', content = [104, 101, 108, 108, 111]\<rparr>"

text \<open>
  A codec of four files: the bytes \<open>[1]\<close>, \<open>[2]\<close>, \<open>[3]\<close> and \<open>[4]\<close> are the four images
  above, no other bytes are an image and no other image can be written.
\<close>

definition toy_open :: "byte list \<Rightarrow> py_exception + image" where
  "toy_open bs =
     (if bs = [1] then Inr black_rgb
      else if bs = [2] then Inr white_rgb
      else if bs = [3] then Inr clear_la
      else if bs = [4] then Inr half_rgba
      else Inl (PyExc ''UnidentifiedImageError'' ''cannot identify image file''))"

definition toy_save :: "image \<Rightarrow> string \<Rightarrow> nat option \<Rightarrow> py_exception + byte list" where
  "toy_save im fmt quality =
     (if im = black_rgb then Inr [1]
      else if im = white_rgb then Inr [2]
      else if im = clear_la then Inr [3]
      else if im = half_rgba then Inr [4]
      else Inl (PyExc ''OSError'' ''encoder error''))"

text \<open>
  A process without \<open>rembg\<close>; one whose \<open>remove\<close> returns its argument; one whose
  \<open>remove\<close> raises; one whose \<open>remove\<close> answers with an image the toy encoder cannot
  write.
\<close>

definition env_unavailable :: env where
  "env_unavailable =
     \<lparr>REMBG_AVAILABLE = False, rembg_remove = Inr, Image_open = toy_open, Image_save = toy_save\<rparr>"

definition env_available :: env where
  "env_available =
     \<lparr>REMBG_AVAILABLE = True, rembg_remove = Inr, Image_open = toy_open, Image_save = toy_save\<rparr>"

definition env_raising :: env where
  "env_raising =
     \<lparr>REMBG_AVAILABLE = True,
      rembg_remove = (\<lambda>im. Inl (PyExc ''RuntimeError'' ''model not loaded'')),
      Image_open = toy_open, Image_save = toy_save\<rparr>"

definition env_unwritable :: env where
  "env_unwritable =
     \<lparr>REMBG_AVAILABLE = True,
      rembg_remove = (\<lambda>im. Inr (pixel_image Mode_RGBA [1, 2, 3, 4])),
      Image_open = toy_open, Image_save = toy_save\<rparr>"

text \<open>
  A process whose \<open>remove\<close> answers, without raising, with a malformed image: one by one
  pixel in size, with no pixel data.
\<close>

definition malformed_image :: image where
  "malformed_image = \<lparr>mode = Mode_RGBA, size_px = (1, 1), data = []\<rparr>"

definition env_malformed :: env where
  "env_malformed =
     \<lparr>REMBG_AVAILABLE = True, rembg_remove = (\<lambda>im. Inr malformed_image),
      Image_open = toy_open, Image_save = toy_save\<rparr>"

definition black_upload :: uploaded_file where
  "black_upload = \<lparr>name = ''black.png'', content = [1]\<rparr>"

definition white_upload :: uploaded_file where
  "white_upload = \<lparr>name = ''white.png'', content = [2]\<rparr>"

section \<open>Properties\<close>

text \<open>The definitions a run on the example inputs unfolds.\<close>

lemmas example_defs = pixel_image_def black_rgb_def white_rgb_def clear_la_def half_rgba_def
  text_upload_def toy_open_def toy_save_def env_unavailable_def env_available_def
  env_raising_def env_unwritable_def black_upload_def white_upload_def malformed_image_def
  env_malformed_def

lemma make_value_key_underscore: "make_value_key [''_image_bytes''] [x] = []"
  by (simp add: make_value_key_def startswith_def)

lemmas run_defs = app_def remove_background_from_bytes_def remove_background_from_bytes_wrapped_def
  remove_def make_value_key_underscore fresh_runtime_def processed_panel_def original_panel_def
  download_section_def save_download_def save_format_def output_filename_def mime_type_def
  splitext_def splitext_generic_def rfind_def leading_dots_end.simps lower_def lower_char_def


subsection \<open>Splitting off the extension\<close>

lemma rfind_from_notin: "c \<notin> set xs \<Longrightarrow> rfind_from xs c i found = found"
  by (induction xs arbitrary: i found) auto

lemma rfind_from_append:
  "rfind_from (xs @ ys) c i found = rfind_from ys c (i + length xs) (rfind_from xs c i found)"
  by (induction xs arbitrary: i found) auto

lemma rfind_from_snoc: "rfind_from (xs @ [c]) c i found = int (i + length xs)"
  by (simp add: rfind_from_append)

lemma rfind_notin: "c \<notin> set p \<Longrightarrow> rfind p c = - 1"
  by (simp add: rfind_def rfind_from_notin)

lemma rfind_last_occurrence:
  assumes "c \<notin> set ys"
  shows "rfind (xs @ c # ys) c = int (length xs)"
proof -
  have "rfind (xs @ c # ys) c = rfind_from ((xs @ [c]) @ ys) c 0 (- 1)"
    by (simp add: rfind_def)
  also have "\<dots> = rfind_from ys c (length xs + 1) (rfind_from (xs @ [c]) c 0 (- 1))"
    by (simp only: rfind_from_append) simp
  also have "\<dots> = rfind_from (xs @ [c]) c 0 (- 1)"
    using assms by (rule rfind_from_notin)
  also have "\<dots> = int (length xs)"
    by (simp add: rfind_from_snoc)
  finally show ?thesis .
qed

lemma leading_dots_end_found:
  "i \<le> j \<Longrightarrow> j < d \<Longrightarrow> j < length p \<Longrightarrow> p ! j \<noteq> e \<Longrightarrow> leading_dots_end p e i d"
proof (induction p e i d rule: leading_dots_end.induct)
  case (1 p extsep filenameIndex dotIndex)
  show ?case
  proof (cases "take 1 (drop filenameIndex p) \<noteq> [extsep]")
    case True
    with 1 show ?thesis by (simp add: leading_dots_end.simps)
  next
    case False
    have "filenameIndex < length p" using 1 by simp
    then have "take 1 (drop filenameIndex p) = [p ! filenameIndex]"
      by (simp add: Cons_nth_drop_Suc [symmetric])
    with False have "p ! filenameIndex = extsep" by simp
    with 1 have "filenameIndex \<noteq> j" by auto
    with 1 False have "leading_dots_end p extsep (Suc filenameIndex) dotIndex" by simp
    with 1 False show ?thesis by (simp add: leading_dots_end.simps)
  qed
qed

lemma splitext_stem_ext:
  assumes "CHR ''/'' \<notin> set base" and "\<exists>c\<in>set base. c \<noteq> CHR ''.''"
      and "CHR ''.'' \<notin> set ext" and "CHR ''/'' \<notin> set ext"
  shows "splitext (base @ ''.'' @ ext) = (base, ''.'' @ ext)"
proof -
  let ?p = "base @ ''.'' @ ext"
  have dot: "rfind ?p (CHR ''.'') = int (length base)"
    using assms(3) rfind_last_occurrence [of "CHR ''.''" ext base] by simp
  have sep: "rfind ?p (CHR ''/'') = - 1"
    using assms(1,4) by (simp add: rfind_notin)
  from assms(2) obtain j where j: "j < length base" "base ! j \<noteq> CHR ''.''"
    by (auto simp: in_set_conv_nth)
  then have "?p ! j \<noteq> CHR ''.''" by (simp add: nth_append)
  with j have "leading_dots_end ?p (CHR ''.'') 0 (length base)"
    by (intro leading_dots_end_found [of 0 j]) auto
  with dot sep show ?thesis
    by (simp add: splitext_def splitext_generic_def)
qed

lemma splitext_no_dot: "CHR ''.'' \<notin> set p \<Longrightarrow> splitext p = (p, [])"
  by (simp add: splitext_def splitext_generic_def rfind_notin leading_dots_end.simps [of _ _ _ 0])

lemma rfind_after:
  assumes "c \<in> set zs"
  shows "int (length ys) < rfind (ys @ d # zs) c"
proof -
  from assms obtain us vs where zs: "zs = us @ c # vs" and "c \<notin> set vs"
    by (meson split_list_last)
  then have "rfind ((ys @ d # us) @ c # vs) c = int (length (ys @ d # us))"
    by (intro rfind_last_occurrence)
  then show ?thesis
    using zs by simp
qed

lemma splitext_parts:
  obtains "splitext p = (p, [])"
  | base ext where "p = base @ ''.'' @ ext" and "CHR ''.'' \<notin> set ext" and "CHR ''/'' \<notin> set ext"
      and "splitext p = (base, ''.'' @ ext)"
proof (cases "CHR ''.'' \<in> set p")
  case False
  then have "splitext p = (p, [])"
    by (rule splitext_no_dot)
  then show ?thesis ..
next
  case True
  then obtain base ext where p: "p = base @ CHR ''.'' # ext" and ext: "CHR ''.'' \<notin> set ext"
    by (meson split_list_last)
  then have dot: "rfind p (CHR ''.'') = int (length base)"
    by (simp add: rfind_last_occurrence)
  show ?thesis
  proof (cases "splitext p = (p, [])")
    case True
    then show ?thesis ..
  next
    case False
    with dot have "rfind p (CHR ''/'') < int (length base)"
      and split: "splitext p = (take (length base) p, drop (length base) p)"
      by (auto simp: splitext_def splitext_generic_def Let_def split: if_splits)
    with p have "CHR ''/'' \<notin> set ext"
      using rfind_after [of "CHR ''/''" ext base "CHR ''.''"] by auto
    moreover from split p have "splitext p = (base, ''.'' @ ext)"
      by simp
    ultimately show ?thesis
      using p ext that(2) by simp
  qed
qed

lemma lower_PNG: "lower ''PNG'' = ''png''" by (simp add: lower_def lower_char_def)
lemma lower_JPG: "lower ''JPG'' = ''jpg''" by (simp add: lower_def lower_char_def)

subsection \<open>Pillow's division by 255\<close>

lemma DIV255_round:
  assumes "x \<le> 65025"
  shows "DIV255 x = (2 * x + 255) div 510"
proof -
  define q where "q = (x + 128) div 256"
  define r where "r = (x + 128) mod 256"
  have t: "x + 128 = 256 * q + r" and r: "r < 256"
    by (simp_all add: q_def r_def)
  have q: "q \<le> 254"
    using assms t by linarith
  have lhs: "DIV255 x = (q + (x + 128)) div 256"
    by (simp add: DIV255_def Let_def q_def)
  show ?thesis
  proof (cases "256 \<le> q + r")
    case True
    have "(q + (x + 128)) div 256 = Suc q"
      using t r q True by (intro div_nat_eqI) simp_all
    moreover have "(2 * x + 255) div 510 = Suc q"
      using t r q True by (intro div_nat_eqI) simp_all
    ultimately show ?thesis using lhs by simp
  next
    case False
    have "(q + (x + 128)) div 256 = q"
      using t r q False by (intro div_nat_eqI) simp_all
    moreover have "(2 * x + 255) div 510 = q"
      using t r q False by (intro div_nat_eqI) simp_all
    ultimately show ?thesis using lhs by simp
  qed
qed

lemma DIV255_byte: "x \<le> 65025 \<Longrightarrow> DIV255 x \<le> 255"
  by (simp add: DIV255_round)

subsection \<open>The download's file name\<close>

text \<open>
  C8. For every upload name and either format of the select box, the download's name is
  \<open>bg_removed_\<close>, the base of the upload name, a dot and the format in small letters
  (\<open>png\<close> for \<open>PNG\<close>, \<open>jpg\<close> for \<open>JPG\<close>), where the upload name is its base
  followed by nothing or by one extension (a dot and characters that are neither a dot nor
  a slash). For a plain file name \<open>stem.suffix\<close> (no slash, a stem that is not made of
  dots only, a suffix without a dot) the base is the stem. The witness is the spec's own
  example, \<open>photo.jpeg\<close>, in both formats.
\<close>

theorem output_filename_shape:
  assumes "download_format \<in> set format_options"
  shows "(\<exists>base ext. uploaded_name = base @ ext \<and>
            (ext = [] \<or> (\<exists>x. ext = ''.'' @ x \<and> CHR ''.'' \<notin> set x \<and> CHR ''/'' \<notin> set x)) \<and>
            output_filename uploaded_name download_format =
              ''bg_removed_'' @ base @ ''.'' @
                (if download_format = ''PNG'' then ''png'' else ''jpg'')) \<and>
         (CHR ''/'' \<notin> set stem \<and> (\<exists>c\<in>set stem. c \<noteq> CHR ''.'') \<and>
          CHR ''.'' \<notin> set suffix \<and> CHR ''/'' \<notin> set suffix \<longrightarrow>
            output_filename (stem @ ''.'' @ suffix) download_format =
              ''bg_removed_'' @ stem @ ''.'' @
                (if download_format = ''PNG'' then ''png'' else ''jpg''))"
proof (intro conjI impI)
  have low: "lower download_format = (if download_format = ''PNG'' then ''png'' else ''jpg'')"
    using assms by (auto simp: format_options_def lower_PNG lower_JPG)
  show "\<exists>base ext. uploaded_name = base @ ext \<and>
            (ext = [] \<or> (\<exists>x. ext = ''.'' @ x \<and> CHR ''.'' \<notin> set x \<and> CHR ''/'' \<notin> set x)) \<and>
            output_filename uploaded_name download_format =
              ''bg_removed_'' @ base @ ''.'' @
                (if download_format = ''PNG'' then ''png'' else ''jpg'')"
  proof (cases uploaded_name rule: splitext_parts)
    case 1
    then have "output_filename uploaded_name download_format =
        ''bg_removed_'' @ uploaded_name @ ''.'' @
          (if download_format = ''PNG'' then ''png'' else ''jpg'')"
      by (simp only: output_filename_def low fst_conv)
    then show ?thesis
      by (intro exI [of _ uploaded_name] exI [of _ "[]"]) simp
  next
    case (2 base ext)
    then have "output_filename uploaded_name download_format =
        ''bg_removed_'' @ base @ ''.'' @
          (if download_format = ''PNG'' then ''png'' else ''jpg'')"
      by (simp only: output_filename_def low fst_conv)
    with 2 show ?thesis
      by (intro exI [of _ base] exI [of _ "''.'' @ ext"]) simp
  qed
  assume h: "CHR ''/'' \<notin> set stem \<and> (\<exists>c\<in>set stem. c \<noteq> CHR ''.'') \<and>
          CHR ''.'' \<notin> set suffix \<and> CHR ''/'' \<notin> set suffix"
  then have "fst (splitext (stem @ ''.'' @ suffix)) = stem"
    using splitext_stem_ext [of stem suffix] by simp
  then show "output_filename (stem @ ''.'' @ suffix) download_format =
              ''bg_removed_'' @ stem @ ''.'' @
                (if download_format = ''PNG'' then ''png'' else ''jpg'')"
    by (simp only: output_filename_def low)
qed

theorem output_filename_shape_witness:
  "output_filename ''photo.jpeg'' ''PNG'' = ''bg_removed_photo.png'' \<and>
   output_filename ''photo.jpeg'' ''JPG'' = ''bg_removed_photo.jpg''"
  using output_filename_shape [of "''PNG''" _ "''photo''" "''jpeg''"]
        output_filename_shape [of "''JPG''" _ "''photo''" "''jpeg''"]
  by (simp add: format_options_def)

subsection \<open>The download's MIME type\<close>

text \<open>
  C9. For either format of the select box, the download button that the export draws
  carries the MIME type \<open>image/\<close> followed by the format in small letters: \<open>image/png\<close>
  for \<open>PNG\<close> and \<open>image/jpg\<close> for \<open>JPG\<close>. The witness draws both buttons for a
  one-pixel image.
\<close>

theorem download_mime_type:
  assumes "download_format \<in> set format_options"
      and "(c, St_download_button lbl buf fname m)
             \<in> set (download_section e uploaded_name output_image download_format)"
  shows "m = ''image/'' @ lower download_format \<and>
         m = (if download_format = ''PNG'' then ''image/png'' else ''image/jpg'')"
proof -
  have "m = mime_type download_format"
    using assms(2) by (auto simp: download_section_def split: sum.splits)
  moreover have "lower download_format = (if download_format = ''PNG'' then ''png'' else ''jpg'')"
    using assms(1) by (auto simp: format_options_def lower_PNG lower_JPG)
  ultimately show ?thesis
    by (simp add: mime_type_def)
qed

theorem download_mime_type_witness:
  "download_section env_available ''black.png'' black_rgb ''PNG'' =
     [(Col2, St_download_button ''Download as PNG'' [1] ''bg_removed_black.png'' ''image/png'')] \<and>
   download_section env_available ''black.png'' black_rgb ''JPG'' =
     [(Col2, St_download_button ''Download as JPG'' [1] ''bg_removed_black.jpg'' ''image/jpg'')] \<and>
   ''image/png'' = ''image/'' @ lower ''PNG'' \<and> ''image/jpg'' = ''image/'' @ lower ''JPG''"
proof -
  have png: "download_section env_available ''black.png'' black_rgb ''PNG'' =
     [(Col2, St_download_button ''Download as PNG'' [1] ''bg_removed_black.png'' ''image/png'')]"
    by (simp add: run_defs example_defs)
  have jpg: "download_section env_available ''black.png'' black_rgb ''JPG'' =
     [(Col2, St_download_button ''Download as JPG'' [1] ''bg_removed_black.jpg'' ''image/jpg'')]"
    by (simp add: run_defs example_defs jpeg_image_def convert_RGB_def)
  have "''image/png'' = ''image/'' @ lower ''PNG''"
    using png download_mime_type [of "''PNG''" Col2 "''Download as PNG''" "[1]"
        "''bg_removed_black.png''" "''image/png''" env_available "''black.png''" black_rgb]
    by (simp add: format_options_def)
  moreover have "''image/jpg'' = ''image/'' @ lower ''JPG''"
    using jpg download_mime_type [of "''JPG''" Col2 "''Download as JPG''" "[1]"
        "''bg_removed_black.jpg''" "''image/jpg''" env_available "''black.png''" black_rgb]
    by (simp add: format_options_def)
  ultimately show ?thesis
    using png jpg by (intro conjI)
qed

subsection \<open>The cache of the helper\<close>

text \<open>
  A call followed by a call with the same argument: the second returns what the first
  returned and leaves the runtime as it is, so \<open>remove\<close> is not called again; one call
  of the decorated function calls \<open>remove\<close> at most once.
\<close>

lemma cache_hit_same_bytes:
  assumes "remove_background_from_bytes e x rt = (r, rt')"
  shows "remove_background_from_bytes e x rt' = (r, rt')"
  using assms
  by (auto simp: remove_background_from_bytes_def make_value_key_underscore Let_def
      split: option.splits prod.splits)

lemma remove_calls_at_most_once:
  assumes "remove_background_from_bytes e x rt = (r, rt')"
  shows "remove_calls rt' = remove_calls rt \<or> remove_calls rt' = remove_calls rt @ [x]"
  using assms
  by (auto simp: remove_background_from_bytes_def remove_background_from_bytes_wrapped_def
      remove_def make_value_key_underscore Let_def
      split: option.splits prod.splits sum.splits if_splits)

text \<open>
  C1, at a failing input. The claim asks that two calls with distinct bytes each get the
  result computed from their own bytes. The parameter is named \<open>_image_bytes\<close>, so the
  key is empty whatever the argument is: after a call with the black image, a call with
  the white image returns the black image's result, while the body run on the white image
  returns the white image.
\<close>

theorem cache_returns_other_input_result:
  "black_rgb \<noteq> white_rgb \<and>
   (case remove_background_from_bytes env_available black_rgb fresh_runtime of
      (first, rt1) \<Rightarrow>
        first = (Some black_rgb, []) \<and>
        fst (remove_background_from_bytes env_available white_rgb rt1) = (Some black_rgb, []) \<and>
        fst (remove_background_from_bytes_wrapped env_available white_rgb (remove_calls rt1))
          = (Some white_rgb, []))"
  by (simp add: remove_background_from_bytes_def remove_background_from_bytes_wrapped_def
      remove_def make_value_key_underscore fresh_runtime_def example_defs)

subsection \<open>An upload that is not an image\<close>

lemma app_decode_error:
  "Image_open e (content f) = Inl exc \<Longrightarrow> app e (Some f) fmt rt = ((page_head, Some exc), rt)"
  by (simp add: app_def)

text \<open>
  C2, at a failing input. The claim asks that an upload which does not decode is reported
  and does not crash the run. The text file \<open>notes.png\<close> makes \<open>Image.open\<close> raise; no
  handler surrounds line 55, so the run ends with that exception after the page head,
  having drawn no error element (and no sidebar).
\<close>

theorem undecodable_upload_ends_run:
  "app env_available (Some text_upload) ''PNG'' fresh_runtime =
     ((page_head, Some (PyExc ''UnidentifiedImageError'' ''cannot identify image file'')),
      fresh_runtime) \<and>
   \<not> list_ex is_error page_head"
  by (simp add: app_def example_defs page_head_def is_error_def)

subsection \<open>Flattening for JPEG\<close>

text \<open>
  Pasting on white with the alpha band as mask is the spec's rounding, exactly: every band
  of every pixel of an \<open>RGBA\<close> image handed to the JPEG encoder is
  \<open>spec_flatten_band\<close> of the source band and the source alpha, the image has no alpha
  band, and the encoder is called with quality 95. An image in another mode is converted
  to \<open>RGB\<close>, and an \<open>RGB\<close> image is handed over as it is.
\<close>

lemma BLEND8_white:
  "unat (BLEND8 a 255 fg) = spec_flatten_band (unat fg) (unat a)"
proof -
  have a: "unat a \<le> 255" and fg: "unat fg \<le> 255"
    using unsigned_less [of a, where 'a = nat] unsigned_less [of fg, where 'a = nat] by simp_all
  let ?x = "255 * (255 - unat a) + unat fg * unat a"
  have "unat fg * unat a \<le> 255 * unat a"
    using fg by (rule mult_le_mono1)
  moreover have "255 * (255 - unat a) + 255 * unat a = 65025"
    using a by linarith
  ultimately have x: "?x \<le> 65025"
    by linarith
  have u255: "unat (255 :: byte) = 255"
    by simp
  have "BLEND8 a 255 fg = of_nat (DIV255 ?x)"
    by (simp only: BLEND8_def u255)
  moreover have "DIV255 ?x \<le> 255"
    using x by (rule DIV255_byte)
  then have "unat (of_nat (DIV255 ?x) :: byte) = DIV255 ?x"
    by (simp add: unat_of_nat)
  moreover have "DIV255 ?x = spec_flatten_band (unat fg) (unat a)"
    using x by (simp only: DIV255_round spec_flatten_band_def add.commute)
  ultimately show ?thesis
    by simp
qed

lemma jpeg_image_RGBA_pixel:
  "jpeg_image (pixel_image Mode_RGBA [r, g, b, a]) =
     pixel_image Mode_RGB [BLEND8 a 255 r, BLEND8 a 255 g, BLEND8 a 255 b]"
  by (simp add: jpeg_image_def paste_def Image_new_def split_def pixel_image_def
      upt_rec numeral_eq_Suc)

lemma zip_replicate_map:
  "map f (zip (replicate (length xs) c) (zip xs (map g xs))) = map (\<lambda>x. f (c, x, g x)) xs"
  by (induction xs) auto

lemma length4E:
  assumes "length px = 4"
  obtains r g b a where "px = [r, g, b, a]"
  using assms by (auto simp: length_Suc_conv numeral_eq_Suc)

lemma jpeg_image_RGBA:
  assumes "mode im = Mode_RGBA" and "wf_image im"
  shows "jpeg_image im =
           \<lparr>mode = Mode_RGB, size_px = size_px im,
            data = map (\<lambda>px. [BLEND8 (px ! 3) 255 (px ! 0), BLEND8 (px ! 3) 255 (px ! 1),
                               BLEND8 (px ! 3) 255 (px ! 2)]) (data im)\<rparr>"
proof -
  have len: "fst (size_px im) * snd (size_px im) = length (data im)"
    and px: "list_all (\<lambda>px. length px = 4) (data im)"
    using assms by (simp_all add: wf_image_def numeral_eq_Suc)
  have mask: "data (split im ! 3) = map (\<lambda>px. [px ! 3]) (data im)"
    using assms(1) by (simp add: split_def upt_rec numeral_eq_Suc)
  let ?f = "\<lambda>(out, inp, m).
     map (\<lambda>(out_band, in_band). BLEND8 (hd m) out_band in_band) (zip out inp)"
  have "data (jpeg_image im) =
      map ?f (zip (replicate (length (data im)) [255, 255, 255])
                  (zip (data im) (map (\<lambda>px. [px ! 3]) (data im))))"
    using assms(1) by (simp add: jpeg_image_def paste_def Image_new_def len mask)
  also have "\<dots> = map (\<lambda>px. ?f ([255, 255, 255], px, [px ! 3])) (data im)"
    by (rule zip_replicate_map)
  also have "\<dots> = map (\<lambda>px. [BLEND8 (px ! 3) 255 (px ! 0), BLEND8 (px ! 3) 255 (px ! 1),
                               BLEND8 (px ! 3) 255 (px ! 2)]) (data im)"
  proof (rule map_cong [OF refl])
    fix px assume "px \<in> set (data im)"
    with px have "length px = 4"
      by (simp add: list_all_iff)
    then obtain r g b a where "px = [r, g, b, a]"
      by (rule length4E)
    then show "?f ([255, 255, 255], px, [px ! 3]) =
        [BLEND8 (px ! 3) 255 (px ! 0), BLEND8 (px ! 3) 255 (px ! 1), BLEND8 (px ! 3) 255 (px ! 2)]"
      by simp
  qed
  finally have "data (jpeg_image im) = map (\<lambda>px. [BLEND8 (px ! 3) 255 (px ! 0),
      BLEND8 (px ! 3) 255 (px ! 1), BLEND8 (px ! 3) 255 (px ! 2)]) (data im)" .
  moreover have "mode (jpeg_image im) = Mode_RGB" "size_px (jpeg_image im) = size_px im"
    using assms(1) by (simp_all add: jpeg_image_def paste_def Image_new_def)
  ultimately show ?thesis
    by (cases "jpeg_image im") simp
qed

lemma rgba_flattened_on_white:
  assumes "mode im = Mode_RGBA" and "wf_image im"
      and "i < length (data im)" and "k < 3"
  shows "\<not> has_alpha (jpeg_image im) \<and> wf_image (jpeg_image im) \<and>
         size_px (jpeg_image im) = size_px im \<and>
         unat (data (jpeg_image im) ! i ! k) =
           spec_flatten_band (unat (data im ! i ! k)) (unat (data im ! i ! 3))"
proof -
  note eq = jpeg_image_RGBA [OF assms(1,2)]
  have "k = 0 \<or> k = 1 \<or> k = 2"
    using assms(4) by linarith
  then have "unat (data (jpeg_image im) ! i ! k) =
           spec_flatten_band (unat (data im ! i ! k)) (unat (data im ! i ! 3))"
    using assms(3) by (auto simp: eq BLEND8_white)
  moreover have "\<not> has_alpha (jpeg_image im)"
    by (simp add: eq has_alpha_def)
  moreover have "wf_image (jpeg_image im)"
    using assms(2) by (simp add: eq wf_image_def list_all_iff)
  ultimately show ?thesis
    by (simp add: eq)
qed

lemma jpeg_quality_95:
  "save_download e im ''JPEG'' = Image_save e (jpeg_image im) ''JPEG'' (Some 95)"
  by (simp add: save_download_def)

lemma jpeg_image_no_alpha_direct:
  "mode im \<noteq> Mode_RGBA \<Longrightarrow> jpeg_image im = convert_RGB im"
  by (simp add: jpeg_image_def)

lemma convert_RGB_of_RGB: "mode im = Mode_RGB \<Longrightarrow> convert_RGB im = im"
  by (cases im) (simp add: convert_RGB_def map_idI)

text \<open>
  C3, at a failing input. The claim asks that every image with an alpha channel is
  composited over white. Line 93 tests for the mode \<open>RGBA\<close> only: a greyscale image with
  alpha (mode \<open>LA\<close>) takes the branch commented "non-alpha mode" and is converted, which
  drops its alpha band. A black, fully transparent pixel is handed to the encoder as black
  \<open>[0, 0, 0]\<close>, where the spec's formula gives white, 255 in every band.
\<close>

theorem la_image_loses_alpha_unflattened:
  "has_alpha clear_la \<and>
   data clear_la = [[0, 0]] \<and>
   data (jpeg_image clear_la) = [[0, 0, 0]] \<and>
   spec_flatten_band 0 0 = 255 \<and>
   save_download env_unavailable clear_la ''JPEG'' =
     Image_save env_unavailable (pixel_image Mode_RGB [0, 0, 0]) ''JPEG'' (Some 95)"
  by (simp add: has_alpha_def jpeg_image_def convert_RGB_def save_download_def
      spec_flatten_band_def example_defs)

subsection \<open>A process without \<open>rembg\<close>\<close>

lemma remove_fallback:
  "\<not> REMBG_AVAILABLE e \<Longrightarrow> remove e x calls = (Inr x, [placeholder_error], calls @ [x])"
  by (simp add: remove_def placeholder_error_def)

lemma wrapped_fallback:
  "\<not> REMBG_AVAILABLE e \<Longrightarrow>
     remove_background_from_bytes_wrapped e x calls = ((Some x, [placeholder_error]), calls @ [x])"
  by (simp add: remove_background_from_bytes_wrapped_def remove_fallback)

lemma map_of_list_all:
  "list_all (\<lambda>(k, v). P v) kvs \<Longrightarrow> map_of kvs k = Some v \<Longrightarrow> P v"
  by (induction kvs) (auto split: if_splits)

lemma fallback_store_step:
  assumes "\<not> REMBG_AVAILABLE e" and "fallback_store rt"
      and "remove_background_from_bytes e x rt = ((v, msgs), rt')"
  shows "v \<noteq> None \<and> msgs = [placeholder_error] \<and> fallback_store rt'"
proof (cases "map_of (cache rt) []")
  case None
  with assms show ?thesis
    by (auto simp: remove_background_from_bytes_def make_value_key_underscore wrapped_fallback
        fallback_store_def)
next
  case (Some cached)
  with assms(2) have "fst cached \<noteq> None \<and> snd cached = [placeholder_error]"
    using map_of_list_all [of "\<lambda>c. fst c \<noteq> None \<and> snd c = [placeholder_error]" "cache rt" "[]" cached]
    by (simp add: fallback_store_def case_prod_unfold)
  with Some assms show ?thesis
    by (auto simp: remove_background_from_bytes_def make_value_key_underscore)
qed

text \<open>
  C4, counterexample. The claim says that without the removal library the run halts and
  no processed panel is shown. With the import failed and a decodable upload, the run
  completes, and shows the processed panel (holding the upload itself) and the download
  button.
\<close>

theorem unavailable_still_shows_processed_panel:
  "\<not> REMBG_AVAILABLE env_unavailable \<and>
   snd (fst (app env_unavailable (Some black_upload) ''PNG'' fresh_runtime)) = None \<and>
   (Col2, St_image black_rgb ''Processed Image'')
     \<in> set (fst (fst (app env_unavailable (Some black_upload) ''PNG'' fresh_runtime))) \<and>
   (Col2, St_download_button ''Download as PNG'' [1] ''bg_removed_black.png'' ''image/png'')
     \<in> set (fst (fst (app env_unavailable (Some black_upload) ''PNG'' fresh_runtime)))"
  by (simp add: app_def remove_background_from_bytes_def remove_background_from_bytes_wrapped_def
      remove_def make_value_key_underscore fresh_runtime_def example_defs processed_panel_def
      download_section_def save_download_def save_format_def output_filename_def mime_type_def
      splitext_def splitext_generic_def rfind_def leading_dots_end.simps lower_def lower_char_def)

text \<open>
  C4, amended. Without the removal library, every run on a decodable upload, from any
  store built in such a process, draws the placeholder's error message and the sidebar's
  warning, and does not halt: it ends without an exception after the processed panel, the
  download section and the sidebar, and the store stays one built in such a process.
\<close>

theorem unavailable_reported_and_run_continues:
  assumes "\<not> REMBG_AVAILABLE e" and "fallback_store rt"
      and "Image_open e (content f) = Inr input_image"
  shows "(\<exists>out. fst (app e (Some f) fmt rt) =
            (page_head @ original_panel input_image @ [placeholder_error] @ processed_panel out @
             download_section e (name f) out fmt @ sidebar e, None)) \<and>
         missing_rembg_warning \<in> set (sidebar e) \<and>
         fallback_store (snd (app e (Some f) fmt rt))"
proof -
  obtain v msgs rt' where step: "remove_background_from_bytes e input_image rt = ((v, msgs), rt')"
    by (metis surj_pair)
  from fallback_store_step [OF assms(1,2) step]
  obtain out where out: "v = Some out" and msgs: "msgs = [placeholder_error]"
    and rt': "fallback_store rt'"
    by auto
  have "app e (Some f) fmt rt =
          ((page_head @ original_panel input_image @ [placeholder_error] @ processed_panel out @
            download_section e (name f) out fmt @ sidebar e, None), rt')"
    using assms(3) step out msgs by (simp add: app_def)
  moreover have "missing_rembg_warning \<in> set (sidebar e)"
    using assms(1) by (simp add: sidebar_def)
  ultimately show ?thesis
    using rt' by (intro conjI exI [of _ out]) simp_all
qed

theorem unavailable_reported_and_run_continues_witness:
  "\<not> REMBG_AVAILABLE env_unavailable \<and> fallback_store fresh_runtime \<and>
   Image_open env_unavailable (content black_upload) = Inr black_rgb \<and>
   (\<exists>out. fst (app env_unavailable (Some black_upload) ''JPG'' fresh_runtime) =
      (page_head @ original_panel black_rgb @ [placeholder_error] @ processed_panel out @
       download_section env_unavailable (name black_upload) out ''JPG'' @ sidebar env_unavailable,
       None)) \<and>
   missing_rembg_warning \<in> set (sidebar env_unavailable) \<and>
   fallback_store (snd (app env_unavailable (Some black_upload) ''JPG'' fresh_runtime))"
proof -
  have a: "\<not> REMBG_AVAILABLE env_unavailable"
    by (simp add: env_unavailable_def)
  have b: "fallback_store fresh_runtime"
    by (simp add: fallback_store_def fresh_runtime_def)
  have c: "Image_open env_unavailable (content black_upload) = Inr black_rgb"
    by (simp add: env_unavailable_def black_upload_def toy_open_def)
  show ?thesis
    using a b c unavailable_reported_and_run_continues [OF a b c, of "''JPG''"] by simp
qed

lemma fallback_first_run:
  assumes "\<not> REMBG_AVAILABLE e" and "map_of (cache rt) [] = None"
      and "Image_open e (content f) = Inr input_image"
  shows "fst (app e (Some f) fmt rt) =
           (page_head @ original_panel input_image @ [placeholder_error] @
            processed_panel input_image @ download_section e (name f) input_image fmt @
            sidebar e, None)"
  using assms
  by (simp add: app_def remove_background_from_bytes_def make_value_key_underscore
      wrapped_fallback)

text \<open>
  C10, at a failing input. The claim concludes that without the removal library the
  processed image equals the uploaded image. On the first run it does
  (\<open>fallback_first_run\<close>). After a run on the black image, a run on the white image
  finds the black image in the cache, whose key ignores the argument: the processed panel
  shows the black image and not the white one.
\<close>

theorem fallback_run_shows_earlier_upload:
  "\<not> REMBG_AVAILABLE env_unavailable \<and>
   Image_open env_unavailable (content white_upload) = Inr white_rgb \<and>
   black_rgb \<noteq> white_rgb \<and>
   (case app env_unavailable (Some black_upload) ''PNG'' fresh_runtime of
      (first, rt1) \<Rightarrow>
        (Col2, St_image black_rgb ''Processed Image'')
          \<in> set (fst (fst (app env_unavailable (Some white_upload) ''PNG'' rt1))) \<and>
        (Col2, St_image white_rgb ''Processed Image'')
          \<notin> set (fst (fst (app env_unavailable (Some white_upload) ''PNG'' rt1))))"
  by (simp add: run_defs example_defs page_head_def sidebar_def missing_rembg_warning_def)

subsection \<open>A removal that raises, and one that answers badly\<close>

text \<open>
  C5, counterexample. The claim lists malformed output among the failures that the helper
  turns into a failure result with a message, and says the capability is attempted exactly
  once per call. Lines 35 and 36 return what \<open>remove\<close> returned, unchecked: the malformed
  image comes back as a success with no message (and the script hands it to \<open>st.image\<close> at
  line 72, outside every \<open>try\<close>). And a second call of the helper with the same image is
  answered from the cache: \<open>remove\<close> has still been called once in all.
\<close>

theorem malformed_output_passes_as_success:
  "\<not> wf_image malformed_image \<and>
   remove_background_from_bytes_wrapped env_malformed black_rgb [] =
     ((Some malformed_image, []), [black_rgb]) \<and>
   (case remove_background_from_bytes env_malformed black_rgb fresh_runtime of
      (first, rt1) \<Rightarrow>
        first = (Some malformed_image, []) \<and>
        remove_calls rt1 = [black_rgb] \<and>
        remove_calls (snd (remove_background_from_bytes env_malformed black_rgb rt1))
          = [black_rgb])"
  by (simp add: remove_background_from_bytes_def remove_background_from_bytes_wrapped_def
      remove_def make_value_key_underscore fresh_runtime_def wf_image_def example_defs)

text \<open>
  C5, amended. An exception that \<open>rembg\<close>'s \<open>remove\<close> raises is caught in the helper: the
  body returns \<open>None\<close> with one error element that carries the exception's text, and a
  run in which the helper's result is \<open>None\<close> draws its messages and the error of line 116
  in place of the processed panel, then the sidebar, and ends without an exception. What
  \<open>remove\<close> returns without raising is passed on unchecked. The body calls \<open>remove\<close>
  exactly once; a call of the cached helper runs the body on a cache miss and does not
  call \<open>remove\<close> on a cache hit.
\<close>

theorem raised_removal_exception_is_caught:
  "snd (remove_background_from_bytes_wrapped e x calls) = calls @ [x] \<and>
   (REMBG_AVAILABLE e \<and> rembg_remove e x = Inl exc \<longrightarrow>
      fst (remove_background_from_bytes_wrapped e x calls) =
        (None, [(Page, St_error (''Error during background removal: '' @ exc_str exc))])) \<and>
   (REMBG_AVAILABLE e \<and> rembg_remove e x = Inr out \<longrightarrow>
      fst (remove_background_from_bytes_wrapped e x calls) = (Some out, [])) \<and>
   (map_of (cache rt) [] = None \<longrightarrow>
      remove_background_from_bytes e x rt =
        (fst (remove_background_from_bytes_wrapped e x (remove_calls rt)),
         \<lparr>cache = ([], fst (remove_background_from_bytes_wrapped e x (remove_calls rt))) # cache rt,
          remove_calls = remove_calls rt @ [x]\<rparr>)) \<and>
   (map_of (cache rt) [] = Some cached \<longrightarrow>
      remove_background_from_bytes e x rt = (cached, rt)) \<and>
   (Image_open e (content f) = Inr x \<and>
    fst (remove_background_from_bytes e x rt) = (None, msgs) \<longrightarrow>
      fst (app e (Some f) fmt rt) =
        (page_head @ original_panel x @ msgs @
         [(Col2, St_error ''Could not process the image. Please try another one or check the logs.'')] @
         sidebar e, None))"
proof (intro conjI impI)
  show once: "snd (remove_background_from_bytes_wrapped e x calls) = calls @ [x]" for calls
    by (simp add: remove_background_from_bytes_wrapped_def remove_def split: sum.splits)
  show "fst (remove_background_from_bytes_wrapped e x calls) =
        (None, [(Page, St_error (''Error during background removal: '' @ exc_str exc))])"
    if "REMBG_AVAILABLE e \<and> rembg_remove e x = Inl exc"
    using that by (simp add: remove_background_from_bytes_wrapped_def remove_def)
  show "fst (remove_background_from_bytes_wrapped e x calls) = (Some out, [])"
    if "REMBG_AVAILABLE e \<and> rembg_remove e x = Inr out"
    using that by (simp add: remove_background_from_bytes_wrapped_def remove_def)
  show "remove_background_from_bytes e x rt =
        (fst (remove_background_from_bytes_wrapped e x (remove_calls rt)),
         \<lparr>cache = ([], fst (remove_background_from_bytes_wrapped e x (remove_calls rt))) # cache rt,
          remove_calls = remove_calls rt @ [x]\<rparr>)"
    if "map_of (cache rt) [] = None"
    using that once [of "remove_calls rt"]
    by (auto simp: remove_background_from_bytes_def make_value_key_underscore split: prod.splits)
  show "remove_background_from_bytes e x rt = (cached, rt)"
    if "map_of (cache rt) [] = Some cached"
    using that by (simp add: remove_background_from_bytes_def make_value_key_underscore)
  show "fst (app e (Some f) fmt rt) =
        (page_head @ original_panel x @ msgs @
         [(Col2, St_error ''Could not process the image. Please try another one or check the logs.'')] @
         sidebar e, None)"
    if "Image_open e (content f) = Inr x \<and>
        fst (remove_background_from_bytes e x rt) = (None, msgs)"
    using that by (auto simp: app_def split: prod.splits)
qed

theorem raised_removal_exception_is_caught_witness:
  "REMBG_AVAILABLE env_raising \<and>
   rembg_remove env_raising black_rgb = Inl (PyExc ''RuntimeError'' ''model not loaded'') \<and>
   Image_open env_raising (content black_upload) = Inr black_rgb \<and>
   map_of (cache fresh_runtime) [] = None \<and>
   remove_background_from_bytes_wrapped env_raising black_rgb [] =
     ((None, [(Page, St_error ''Error during background removal: model not loaded'')]),
      [black_rgb]) \<and>
   remove_background_from_bytes env_raising black_rgb fresh_runtime =
     ((None, [(Page, St_error ''Error during background removal: model not loaded'')]),
      \<lparr>cache = [([], None,
                   [(Page, St_error ''Error during background removal: model not loaded'')])],
       remove_calls = [black_rgb]\<rparr>) \<and>
   fst (app env_raising (Some black_upload) ''PNG'' fresh_runtime) =
     (page_head @ original_panel black_rgb @
      [(Page, St_error ''Error during background removal: model not loaded''),
       (Col2, St_error ''Could not process the image. Please try another one or check the logs.'')] @
      sidebar env_raising, None)"
proof -
  let ?msg = "(Page, St_error ''Error during background removal: model not loaded'')"
  have a: "REMBG_AVAILABLE env_raising"
    by (simp add: env_raising_def)
  have b: "rembg_remove env_raising black_rgb = Inl (PyExc ''RuntimeError'' ''model not loaded'')"
    by (simp add: env_raising_def)
  have c: "Image_open env_raising (content black_upload) = Inr black_rgb"
    by (simp add: env_raising_def black_upload_def toy_open_def)
  have d: "map_of (cache fresh_runtime) [] = None"
    by (simp add: fresh_runtime_def)
  have e: "remove_calls fresh_runtime = []" "cache fresh_runtime = []"
    by (simp_all add: fresh_runtime_def)
  note th = raised_removal_exception_is_caught
    [of env_raising black_rgb "[]" "PyExc ''RuntimeError'' ''model not loaded''" _
        fresh_runtime _ black_upload "[?msg]" "''PNG''"]
  have w: "remove_background_from_bytes_wrapped env_raising black_rgb [] =
      ((None, [?msg]), [black_rgb])"
    using th a b by (simp add: prod_eq_iff)
  have h: "remove_background_from_bytes env_raising black_rgb fresh_runtime =
      ((None, [?msg]), \<lparr>cache = [([], None, [?msg])], remove_calls = [black_rgb]\<rparr>)"
    using th d e w by simp
  have r: "fst (app env_raising (Some black_upload) ''PNG'' fresh_runtime) =
     (page_head @ original_panel black_rgb @
      [?msg,
       (Col2, St_error ''Could not process the image. Please try another one or check the logs.'')] @
      sidebar env_raising, None)"
    using th c h by simp
  show ?thesis
    using a b c d w h r by (intro conjI)
qed

subsection \<open>The PNG download\<close>

text \<open>
  The PNG branch (line 102) hands the processed image to the encoder as it is, with no
  quality setting. Whether the bytes written read back with the same alpha values is a
  property of Pillow's PNG encoder and decoder, which this theory does not contain.
\<close>

lemma png_branch_saves_image_unchanged:
  "save_download e output_image (save_format ''PNG'') = Image_save e output_image ''PNG'' None"
  by (simp add: save_download_def save_format_def)

subsection \<open>An export that fails\<close>

lemma wrapped_only_errors:
  "remove_background_from_bytes_wrapped e x calls = ((v, msgs), calls') \<Longrightarrow>
     list_all is_error msgs"
  by (auto simp: remove_background_from_bytes_wrapped_def remove_def is_error_def
      split: if_splits sum.splits)

lemma cache_ok_step:
  assumes "cache_ok rt" and "remove_background_from_bytes e x rt = ((v, msgs), rt')"
  shows "list_all is_error msgs \<and> cache_ok rt'"
proof (cases "map_of (cache rt) []")
  case None
  obtain r calls' where w: "remove_background_from_bytes_wrapped e x (remove_calls rt) = (r, calls')"
    by (metis surj_pair)
  with None assms(2) have r: "r = (v, msgs)"
    and rt': "rt' = \<lparr>cache = ([], r) # cache rt, remove_calls = calls'\<rparr>"
    by (auto simp: remove_background_from_bytes_def make_value_key_underscore)
  from w r have "list_all is_error msgs"
    using wrapped_only_errors by simp
  with assms(1) r rt' show ?thesis
    by (simp add: cache_ok_def)
next
  case (Some cached)
  with assms(1) have "list_all is_error (snd cached)"
    using map_of_list_all [of "\<lambda>c. list_all is_error (snd c)" "cache rt" "[]" cached]
    by (simp add: cache_ok_def case_prod_unfold)
  with Some assms show ?thesis
    by (auto simp: remove_background_from_bytes_def make_value_key_underscore)
qed

lemma error_not_button: "is_error d \<Longrightarrow> \<not> is_download_button d"
  by (cases d) (auto simp: is_error_def is_download_button_def split: element.splits)

lemma only_errors_no_button: "list_all is_error msgs \<Longrightarrow> \<not> list_ex is_download_button msgs"
  by (induction msgs) (auto simp: error_not_button)

lemma page_head_no_button: "\<not> list_ex is_download_button page_head"
  by (simp add: page_head_def is_download_button_def)

lemma original_panel_no_button: "\<not> list_ex is_download_button (original_panel im)"
  by (simp add: original_panel_def is_download_button_def)

lemma processed_panel_no_button: "\<not> list_ex is_download_button (processed_panel im)"
  by (simp add: processed_panel_def is_download_button_def)

lemma sidebar_no_button: "\<not> list_ex is_download_button (sidebar e)"
  by (simp add: sidebar_def missing_rembg_warning_def is_download_button_def)

text \<open>
  C7. When the encoder raises during the export, the run draws everything it draws
  otherwise up to and including the processed image panel, then an error whose text starts
  \<open>Error preparing download:\<close> in place of the download button, then the sidebar, and
  ends without an exception. No download button is drawn, and the text differs from both
  messages of a failed removal.
\<close>

theorem export_failure_keeps_processed_image:
  assumes "cache_ok rt"
      and "Image_open e (content f) = Inr input_image"
      and "remove_background_from_bytes e input_image rt = ((Some out, msgs), rt')"
      and "save_download e out (save_format fmt) = Inl exc"
  shows "app e (Some f) fmt rt =
           ((page_head @ original_panel input_image @ msgs @ processed_panel out @
             [(Col2, St_error (''Error preparing download: '' @ exc_str exc))] @ sidebar e,
             None), rt') \<and>
         (Col2, St_image out ''Processed Image'') \<in> set (fst (fst (app e (Some f) fmt rt))) \<and>
         \<not> list_ex is_download_button (fst (fst (app e (Some f) fmt rt))) \<and>
         ''Error preparing download: '' @ exc_str exc \<noteq> ''Error during background removal: '' @ s \<and>
         ''Error preparing download: '' @ exc_str exc \<noteq>
           ''Could not process the image. Please try another one or check the logs.''"
proof -
  have run: "app e (Some f) fmt rt =
           ((page_head @ original_panel input_image @ msgs @ processed_panel out @
             [(Col2, St_error (''Error preparing download: '' @ exc_str exc))] @ sidebar e,
             None), rt')"
    using assms(2-4) by (simp add: app_def download_section_def)
  have "list_all is_error msgs"
    using cache_ok_step [OF assms(1,3)] by simp
  then have msgs: "\<not> list_ex is_download_button msgs"
    by (rule only_errors_no_button)
  have shown: "(Col2, St_image out ''Processed Image'') \<in> set (processed_panel out)"
    by (simp add: processed_panel_def)
  have none: "\<not> list_ex is_download_button
      (page_head @ original_panel input_image @ msgs @ processed_panel out @
       [(Col2, St_error (''Error preparing download: '' @ exc_str exc))] @ sidebar e)"
    using msgs page_head_no_button original_panel_no_button processed_panel_no_button
      sidebar_no_button
    by (simp add: is_download_button_def)
  show ?thesis
    using run shown none by simp
qed

theorem export_failure_keeps_processed_image_witness:
  "cache_ok fresh_runtime \<and>
   Image_open env_unwritable (content black_upload) = Inr black_rgb \<and>
   save_download env_unwritable (pixel_image Mode_RGBA [1, 2, 3, 4]) (save_format ''PNG'')
     = Inl (PyExc ''OSError'' ''encoder error'') \<and>
   fst (app env_unwritable (Some black_upload) ''PNG'' fresh_runtime) =
     (page_head @ original_panel black_rgb @
      processed_panel (pixel_image Mode_RGBA [1, 2, 3, 4]) @
      [(Col2, St_error ''Error preparing download: encoder error'')] @ sidebar env_unwritable,
      None) \<and>
   \<not> list_ex is_download_button (fst (fst (app env_unwritable (Some black_upload) ''PNG'' fresh_runtime)))"
proof -
  let ?out = "pixel_image Mode_RGBA [1, 2, 3, 4]"
  let ?rt = "\<lparr>cache = [([], Some ?out, [])], remove_calls = [black_rgb]\<rparr>"
  have a: "cache_ok fresh_runtime"
    by (simp add: cache_ok_def fresh_runtime_def)
  have b: "Image_open env_unwritable (content black_upload) = Inr black_rgb"
    by (simp add: env_unwritable_def black_upload_def toy_open_def)
  have c: "remove_background_from_bytes env_unwritable black_rgb fresh_runtime
             = ((Some ?out, []), ?rt)"
    by (simp add: remove_background_from_bytes_def remove_background_from_bytes_wrapped_def
        remove_def make_value_key_underscore fresh_runtime_def env_unwritable_def)
  have d: "save_download env_unwritable ?out (save_format ''PNG'')
             = Inl (PyExc ''OSError'' ''encoder error'')"
    by (simp add: save_download_def save_format_def example_defs)
  note run = export_failure_keeps_processed_image [OF a b c d, of "''PNG''"]
  have e: "fst (app env_unwritable (Some black_upload) ''PNG'' fresh_runtime) =
     (page_head @ original_panel black_rgb @ processed_panel ?out @
      [(Col2, St_error ''Error preparing download: encoder error'')] @ sidebar env_unwritable,
      None)"
    using run [THEN conjunct1] by simp
  have f: "\<not> list_ex is_download_button
      (fst (fst (app env_unwritable (Some black_upload) ''PNG'' fresh_runtime)))"
    using run [THEN conjunct2, THEN conjunct2, THEN conjunct1] .
  show ?thesis
    using a b d e f by (intro conjI)
qed

end
